theory Spec2Isabelle
  imports Complex_Main
begin

section \<open>Python values and errors\<close>

text \<open>
  The constructor arguments of the agent are arbitrary Python values that are only stored,
  compared with \<^verbatim>\<open>None\<close> or with a string, and placed into dictionaries. A float is
  represented by the number its literal denotes; no arithmetic is done on it. A dictionary
  (\<^verbatim>\<open>dict\<close>, \<^verbatim>\<open>OrderedDict\<close>) is an association list in insertion order.
\<close>

datatype pyval =
    PNone
  | PBool bool
  | PInt int
  | PFloat real
  | PStr string
  | PList "pyval list"
  | PDict "(string \<times> pyval) list"

type_synonym pydict = "(string \<times> pyval) list"

text \<open>
  Modelled from the spec: the class \<^verbatim>\<open>TensorforceError\<close> and its constructor
  \<^verbatim>\<open>TensorforceError.deprecated(name, argument, replacement)\<close> are defined outside the
  two source files. \<open>TensorforceError\<close> carries the message it is raised with; the spec
  describes the deprecation error as "a descriptive error naming the deprecated argument and
  its replacement", so \<open>Deprecated\<close> carries the three keyword arguments it is built from.
  The other errors are the built-in exceptions of Python, with the name they complain about.
\<close>

datatype error =
    TensorforceError string
  | Deprecated string string string
  | TypeError string
  | AttributeError string
  | NotImplementedError

text \<open>\<^verbatim>\<open>d[k] = v\<close> on a dictionary: replaces the value of an existing key in place, appends a new key.\<close>

fun setitem :: "pydict \<Rightarrow> string \<Rightarrow> pyval \<Rightarrow> pydict" where
  "setitem [] k v = [(k, v)]"
| "setitem ((k', v') # d) k v = (if k' = k then (k, v) # d else (k', v') # setitem d k v)"

section \<open>The DeterministicPolicyGradient agent (agents/dpg.py)\<close>

subsection \<open>Parameters of the constructor\<close>

text \<open>
  The parameters of \<^verbatim>\<open>DeterministicPolicyGradient.__init__\<close> once bound; \<open>kwargs\<close> holds
  the surplus keyword arguments (\<^verbatim>\<open>**kwargs\<close>).
\<close>

record dpg_args =
  states :: pyval
  actions :: pyval
  memory :: pyval
  batch_size :: pyval
  max_episode_timesteps :: pyval
  network :: pyval
  use_beta_distribution :: pyval
  update_frequency :: pyval
  start_updating :: pyval
  learning_rate :: pyval
  horizon :: pyval
  discount :: pyval
  predict_terminal_values :: pyval
  critic :: pyval
  critic_optimizer :: pyval
  preprocessing :: pyval
  exploration :: pyval
  variable_noise :: pyval
  l2_regularization :: pyval
  entropy_regularization :: pyval
  parallel_interactions :: pyval
  config :: pyval
  saver :: pyval
  summarizer :: pyval
  recorder :: pyval
  estimate_terminal :: pyval
  critic_network :: pyval
  kwargs :: pydict

text \<open>The names of the parameters, in the order of the signature (lines 131 to 153).\<close>

definition required_params :: "string list" where
  "required_params = [''states'', ''actions'', ''memory'', ''batch_size'']"

definition optional_params :: "string list" where
  "optional_params =
     [''max_episode_timesteps'', ''network'', ''use_beta_distribution'',
      ''update_frequency'', ''start_updating'', ''learning_rate'',
      ''horizon'', ''discount'', ''predict_terminal_values'',
      ''critic'', ''critic_optimizer'', ''preprocessing'',
      ''exploration'', ''variable_noise'',
      ''l2_regularization'', ''entropy_regularization'',
      ''parallel_interactions'',
      ''config'', ''saver'', ''summarizer'', ''recorder'',
      ''estimate_terminal'', ''critic_network'']"

text \<open>A keyword argument of the call, or the default of the signature when it is omitted.\<close>

definition arg_or :: "pydict \<Rightarrow> string \<Rightarrow> pyval \<Rightarrow> pyval" where
  "arg_or kw k dflt = (case map_of kw k of None \<Rightarrow> dflt | Some v \<Rightarrow> v)"

text \<open>
  Binding a call made with keyword arguments \<open>kw\<close> to the signature: a required parameter
  that is not given is a \<^verbatim>\<open>TypeError\<close>, an omitted optional parameter takes the default
  written in the signature, and every keyword that is not a parameter goes to \<^verbatim>\<open>**kwargs\<close>.
\<close>

definition bind_args :: "pydict \<Rightarrow> error + dpg_args" where
  "bind_args kw =
     (case filter (\<lambda>p. map_of kw p = None) required_params of
        p # _ \<Rightarrow> Inl (TypeError p)
      | [] \<Rightarrow> Inr \<lparr>
          states = arg_or kw ''states'' PNone,
          actions = arg_or kw ''actions'' PNone,
          memory = arg_or kw ''memory'' PNone,
          batch_size = arg_or kw ''batch_size'' PNone,
          max_episode_timesteps = arg_or kw ''max_episode_timesteps'' PNone,
          network = arg_or kw ''network'' (PStr ''auto''),
          use_beta_distribution = arg_or kw ''use_beta_distribution'' (PBool True),
          update_frequency = arg_or kw ''update_frequency'' (PStr ''batch_size''),
          start_updating = arg_or kw ''start_updating'' PNone,
          learning_rate = arg_or kw ''learning_rate'' (PFloat (1 / 1000)),
          horizon = arg_or kw ''horizon'' (PInt 1),
          discount = arg_or kw ''discount'' (PFloat (99 / 100)),
          predict_terminal_values = arg_or kw ''predict_terminal_values'' (PBool False),
          critic = arg_or kw ''critic'' (PStr ''auto''),
          critic_optimizer = arg_or kw ''critic_optimizer'' (PFloat 1),
          preprocessing = arg_or kw ''preprocessing'' (PStr ''linear_normalization''),
          exploration = arg_or kw ''exploration'' (PFloat 0),
          variable_noise = arg_or kw ''variable_noise'' (PFloat 0),
          l2_regularization = arg_or kw ''l2_regularization'' (PFloat 0),
          entropy_regularization = arg_or kw ''entropy_regularization'' (PFloat 0),
          parallel_interactions = arg_or kw ''parallel_interactions'' (PInt 1),
          config = arg_or kw ''config'' PNone,
          saver = arg_or kw ''saver'' PNone,
          summarizer = arg_or kw ''summarizer'' PNone,
          recorder = arg_or kw ''recorder'' PNone,
          estimate_terminal = arg_or kw ''estimate_terminal'' PNone,
          critic_network = arg_or kw ''critic_network'' PNone,
          kwargs = filter (\<lambda>(k, v). k \<notin> set (required_params @ optional_params)) kw \<rparr>)"

subsection \<open>The checks at the start of the body (lines 155 to 163)\<close>

text \<open>Line 155: \<^verbatim>\<open>raise TensorforceError(message='Temporarily broken.')\<close>.\<close>

definition broken_guard :: "error + unit" where
  "broken_guard = Inl (TensorforceError ''Temporarily broken.'')"

text \<open>Lines 156 to 163: the two deprecation checks, \<open>estimate_terminal\<close> first.\<close>

definition check_deprecated :: "dpg_args \<Rightarrow> error + unit" where
  "check_deprecated a =
     (if estimate_terminal a \<noteq> PNone then
        Inl (Deprecated ''DPG'' ''estimate_terminal'' ''predict_terminal_values'')
      else if critic_network a \<noteq> PNone then
        Inl (Deprecated ''DPG'' ''critic_network'' ''critic'')
      else Inr ())"

subsection \<open>The mapping from arguments to specifications (lines 165 to 205)\<close>

text \<open>
  The values built by lines 165 to 205: \<open>self_spec\<close> is the \<^verbatim>\<open>OrderedDict\<close> assigned to
  \<^verbatim>\<open>self.spec\<close>, and the other fields are the local variables of the same names
  (\<open>memory'\<close> is the local \<^verbatim>\<open>memory\<close> after line 186 has rebound it).
\<close>

record dpg_specs =
  self_spec :: pydict
  policy :: pydict
  memory' :: pydict
  update :: pydict
  optimizer :: pydict
  objective :: pyval
  reward_estimation :: pydict
  baseline :: pydict
  baseline_optimizer :: pyval
  baseline_objective :: pydict

text \<open>Lines 188 to 192.\<close>

definition update_spec :: "dpg_args \<Rightarrow> pydict" where
  "update_spec a =
     (let update0 = [(''unit'', PStr ''timesteps''), (''batch_size'', batch_size a)];
          update1 = (if update_frequency a \<noteq> PStr ''batch_size''
                     then setitem update0 ''frequency'' (update_frequency a) else update0)
      in if start_updating a \<noteq> PNone
         then setitem update1 ''start'' (start_updating a) else update1)"

definition spec_mapping :: "dpg_args \<Rightarrow> dpg_specs" where
  "spec_mapping a = \<lparr>
     self_spec =
       [(''agent'', PStr ''dpg''),
        (''states'', states a), (''actions'', actions a), (''memory'', memory a),
        (''batch_size'', batch_size a),
        (''max_episode_timesteps'', max_episode_timesteps a),
        (''network'', network a), (''use_beta_distribution'', use_beta_distribution a),
        (''update_frequency'', update_frequency a), (''start_updating'', start_updating a),
        (''learning_rate'', learning_rate a),
        (''horizon'', horizon a), (''discount'', discount a),
        (''predict_terminal_values'', predict_terminal_values a),
        (''critic'', critic a), (''critic_optimizer'', critic_optimizer a),
        (''preprocessing'', preprocessing a),
        (''exploration'', exploration a), (''variable_noise'', variable_noise a),
        (''l2_regularization'', l2_regularization a),
        (''entropy_regularization'', entropy_regularization a),
        (''parallel_interactions'', parallel_interactions a),
        (''config'', config a), (''saver'', saver a), (''summarizer'', summarizer a),
        (''recorder'', recorder a)],
     policy =
       [(''type'', PStr ''parametrized_distributions''), (''network'', network a),
        (''temperature'', PFloat 0), (''use_beta_distribution'', use_beta_distribution a)],
     memory' = [(''type'', PStr ''replay''), (''capacity'', memory a)],
     update = update_spec a,
     optimizer = [(''type'', PStr ''adam''), (''learning_rate'', learning_rate a)],
     objective = PStr ''deterministic_policy_gradient'',
     reward_estimation =
       [(''horizon'', horizon a), (''discount'', discount a),
        (''predict_horizon_values'', PStr ''late''),
        (''estimate_advantage'', PBool False), (''predict_action_values'', PBool True),
        (''predict_terminal_values'', predict_terminal_values a)],
     baseline = [(''type'', PStr ''parametrized_distributions''), (''network'', critic a)],
     baseline_optimizer = critic_optimizer a,
     baseline_objective = [(''type'', PStr ''value''), (''value'', PStr ''action'')] \<rparr>"

text \<open>
  Lines 165 to 205 as run on the object: \<^verbatim>\<open>self.spec\<close> is assigned and the local
  variables hold the specifications. No statement of these lines can raise.
\<close>

record 'b agent =
  spec :: "pydict option"
  base :: 'b

definition assign_specs :: "dpg_args \<Rightarrow> 'b agent \<Rightarrow> dpg_specs \<times> 'b agent" where
  "assign_specs a self =
     (let sp = spec_mapping a in (sp, self\<lparr>spec := Some (self_spec sp)\<rparr>))"

subsection \<open>The call of the superclass constructor (lines 207 to 219)\<close>

text \<open>The keyword arguments written out in the call \<^verbatim>\<open>super().__init__(...)\<close>.\<close>

definition super_keywords :: "dpg_args \<Rightarrow> dpg_specs \<Rightarrow> pydict" where
  "super_keywords a sp =
     [(''states'', states a), (''actions'', actions a),
      (''max_episode_timesteps'', max_episode_timesteps a),
      (''parallel_interactions'', parallel_interactions a), (''config'', config a),
      (''recorder'', recorder a),
      (''preprocessing'', preprocessing a), (''exploration'', exploration a),
      (''variable_noise'', variable_noise a),
      (''l2_regularization'', l2_regularization a), (''saver'', saver a),
      (''summarizer'', summarizer a),
      (''policy'', PDict (policy sp)), (''memory'', PDict (memory' sp)),
      (''update'', PDict (update sp)), (''optimizer'', PDict (optimizer sp)),
      (''objective'', objective sp),
      (''reward_estimation'', PDict (reward_estimation sp)),
      (''baseline'', PDict (baseline sp)),
      (''baseline_optimizer'', baseline_optimizer sp),
      (''baseline_objective'', PDict (baseline_objective sp)),
      (''entropy_regularization'', entropy_regularization a)]"

text \<open>
  The constructor of the superclass \<^verbatim>\<open>TensorforceAgent\<close> is not part of the two source
  files; it is the parameter \<open>super_init\<close>, which may fail and may change the object.
\<close>

type_synonym 'b super_init = "pydict \<Rightarrow> 'b agent \<Rightarrow> (error + unit) \<times> 'b agent"

text \<open>
  The call itself: a keyword of \<^verbatim>\<open>**kwargs\<close> that repeats one written out in the call is a
  \<^verbatim>\<open>TypeError\<close> ("got multiple values for keyword argument").
\<close>

definition super_call :: "'b super_init \<Rightarrow> dpg_args \<Rightarrow> dpg_specs \<Rightarrow> 'b agent \<Rightarrow> (error + unit) \<times> 'b agent" where
  "super_call super_init a sp self =
     (case filter (\<lambda>k. k \<in> set (map fst (super_keywords a sp))) (map fst (kwargs a)) of
        k # _ \<Rightarrow> (Inl (TypeError k), self)
      | [] \<Rightarrow> super_init (super_keywords a sp @ kwargs a) self)"

subsection \<open>The constructor\<close>

text \<open>
  The body without its first statement (lines 156 to 219): the deprecation checks, the
  mapping with the assignment of \<^verbatim>\<open>self.spec\<close>, and the call of the superclass
  constructor. An exception raised by a statement ends the body there.
\<close>

definition init_after_guard :: "'b super_init \<Rightarrow> dpg_args \<Rightarrow> 'b agent \<Rightarrow> (error + unit) \<times> 'b agent" where
  "init_after_guard super_init a self =
     (case check_deprecated a of
        Inl e \<Rightarrow> (Inl e, self)
      | Inr _ \<Rightarrow>
          (case assign_specs a self of (sp, self') \<Rightarrow> super_call super_init a sp self'))"

text \<open>The whole body (lines 155 to 219).\<close>

definition init :: "'b super_init \<Rightarrow> dpg_args \<Rightarrow> 'b agent \<Rightarrow> (error + unit) \<times> 'b agent" where
  "init super_init a self =
     (case broken_guard of
        Inl e \<Rightarrow> (Inl e, self)
      | Inr _ \<Rightarrow> init_after_guard super_init a self)"

text \<open>
  A call \<^verbatim>\<open>DeterministicPolicyGradient(**kw)\<close>: the arguments are bound, then the body runs.
\<close>

definition DeterministicPolicyGradient :: "'b super_init \<Rightarrow> pydict \<Rightarrow> 'b agent \<Rightarrow> (error + unit) \<times> 'b agent" where
  "DeterministicPolicyGradient super_init kw self =
     (case bind_args kw of
        Inl e \<Rightarrow> (Inl e, self)
      | Inr a \<Rightarrow> init super_init a self)"

text \<open>
  Concrete inputs: a call that gives the four required arguments only, the same call with
  the deprecated argument \<^verbatim>\<open>estimate_terminal=True\<close>, a fresh object, and a superclass
  constructor that succeeds without changing the object.
\<close>

definition minimal_call :: pydict where
  "minimal_call =
     [(''states'', PDict [(''type'', PStr ''float''), (''shape'', PInt 4)]),
      (''actions'', PDict [(''type'', PStr ''float'')]),
      (''memory'', PInt 10000), (''batch_size'', PInt 32)]"

definition deprecated_call :: pydict where
  "deprecated_call = minimal_call @ [(''estimate_terminal'', PBool True)]"

definition fresh_agent :: "unit agent" where
  "fresh_agent = \<lparr>spec = None, base = ()\<rparr>"

definition super_ok :: "unit super_init" where
  "super_ok kw self = (Inr (), self)"

text \<open>The parameters that \<open>minimal_call\<close> and \<open>deprecated_call\<close> are bound to.\<close>

definition minimal_args :: dpg_args where
  "minimal_args = \<lparr>
     states = PDict [(''type'', PStr ''float''), (''shape'', PInt 4)],
     actions = PDict [(''type'', PStr ''float'')],
     memory = PInt 10000, batch_size = PInt 32,
     max_episode_timesteps = PNone,
     network = PStr ''auto'', use_beta_distribution = PBool True,
     update_frequency = PStr ''batch_size'', start_updating = PNone,
     learning_rate = PFloat (1 / 1000),
     horizon = PInt 1, discount = PFloat (99 / 100), predict_terminal_values = PBool False,
     critic = PStr ''auto'', critic_optimizer = PFloat 1,
     preprocessing = PStr ''linear_normalization'',
     exploration = PFloat 0, variable_noise = PFloat 0,
     l2_regularization = PFloat 0, entropy_regularization = PFloat 0,
     parallel_interactions = PInt 1,
     config = PNone, saver = PNone, summarizer = PNone, recorder = PNone,
     estimate_terminal = PNone, critic_network = PNone, kwargs = [] \<rparr>"

definition deprecated_args :: dpg_args where
  "deprecated_args = minimal_args\<lparr>estimate_terminal := PBool True\<rparr>"

section \<open>The StateValue module (core/policies/state\_value.py)\<close>

text \<open>
  Modelled from the spec: \<^verbatim>\<open>TensorSpec\<close>, its method \<^verbatim>\<open>signature\<close>, the nested
  \<^verbatim>\<open>TensorsSpec\<close> and \<^verbatim>\<open>SignatureDict\<close> are defined outside the two source files.
  The spec calls them "tensor-shape/type descriptors (TensorSpec-like records of type, shape,
  batching flag)": a \<open>TensorSpec\<close> holds a type and a shape, its signature adds the batching
  flag it was asked for, and a nested specification or \<^verbatim>\<open>SignatureDict\<close> is a tree with
  named children whose leaves are such descriptors.
\<close>

datatype TensorSpec = TensorSpec (spec_type: string) (spec_shape: "nat list")

datatype TensorSignature =
  TensorSignature (sig_type: string) (sig_shape: "nat list") (batched: bool)

datatype 'a nested = Single 'a | SignatureDict "(string \<times> 'a nested) list"

definition signature :: "TensorSpec \<Rightarrow> bool \<Rightarrow> TensorSignature" where
  "signature ts b = TensorSignature (spec_type ts) (spec_shape ts) b"

definition signatures :: "TensorSpec nested \<Rightarrow> bool \<Rightarrow> TensorSignature nested" where
  "signatures t b = map_nested (\<lambda>ts. signature ts b) t"

text \<open>
  The attributes of a \<^verbatim>\<open>StateValue\<close> object that the signatures read. The constructor
  assigns \<open>states_spec\<close>, \<open>auxiliaries_spec\<close> and \<open>actions_spec\<close>, each \<^verbatim>\<open>None\<close> by default.
  It does not assign \<^verbatim>\<open>internals_spec\<close>, which a subclass has to provide: the outer
  \<open>None\<close> of \<open>internals_spec\<close> is a missing attribute, the inner one the value \<^verbatim>\<open>None\<close>.
\<close>

record StateValue =
  states_spec :: "TensorSpec nested option"
  auxiliaries_spec :: "TensorSpec nested option"
  actions_spec :: "TensorSpec nested option"
  internals_spec :: "TensorSpec nested option option"

text \<open>
  \<^verbatim>\<open>x.signature(batched=b)\<close> where \<open>x\<close> may be \<^verbatim>\<open>None\<close>, which has no such method.
\<close>

definition signature_of :: "TensorSpec nested option \<Rightarrow> bool \<Rightarrow> error + TensorSignature nested" where
  "signature_of x b =
     (case x of None \<Rightarrow> Inl (AttributeError ''signature'') | Some t \<Rightarrow> Inr (signatures t b))"

text \<open>
  \<^verbatim>\<open>input_signature\<close> and \<^verbatim>\<open>output_signature\<close>. The methods of the superclass
  \<^verbatim>\<open>Module\<close> that the last branch calls are not part of the two source files; they are the
  parameter \<open>super_signature\<close>. The keyword arguments of \<^verbatim>\<open>SignatureDict(...)\<close> are evaluated
  from left to right.
\<close>

definition input_signature :: "(string \<Rightarrow> error + TensorSignature nested) \<Rightarrow> StateValue \<Rightarrow> string \<Rightarrow> error + TensorSignature nested" where
  "input_signature super_signature self function =
     (if function = ''past_horizon'' then Inr (SignatureDict [])
      else if function = ''state_value'' then
        (case signature_of (states_spec self) True of
           Inl e \<Rightarrow> Inl e
         | Inr st \<Rightarrow>
             let hz = Single (signature (TensorSpec ''int'' [2]) True) in
             (case internals_spec self of
                None \<Rightarrow> Inl (AttributeError ''internals_spec'')
              | Some ispec \<Rightarrow>
                  (case signature_of ispec True of
                     Inl e \<Rightarrow> Inl e
                   | Inr it \<Rightarrow>
                       (case signature_of (auxiliaries_spec self) True of
                          Inl e \<Rightarrow> Inl e
                        | Inr aux \<Rightarrow>
                            Inr (SignatureDict
                              [(''states'', st), (''horizons'', hz),
                               (''internals'', it), (''auxiliaries'', aux)])))))
      else super_signature function)"

definition output_signature :: "(string \<Rightarrow> error + TensorSignature nested) \<Rightarrow> StateValue \<Rightarrow> string \<Rightarrow> error + TensorSignature nested" where
  "output_signature super_signature self function =
     (if function = ''past_horizon'' then
        Inr (SignatureDict [(''singleton'', Single (signature (TensorSpec ''int'' []) False))])
      else if function = ''state_value'' then
        Inr (SignatureDict [(''singleton'', Single (signature (TensorSpec ''float'' []) True))])
      else super_signature function)"

text \<open>Lines 76 to 78: the base class leaves \<^verbatim>\<open>state_value\<close> to its subclasses.\<close>

definition state_value :: "StateValue \<Rightarrow> 'x \<Rightarrow> 'x \<Rightarrow> 'x \<Rightarrow> 'x \<Rightarrow> error + 'y" where
  "state_value self states_in horizons internals auxiliaries = Inl NotImplementedError"

text \<open>
  Concrete inputs: an object with one float state of shape (4), no internal states and one
  action mask, and a superclass that knows no function.
\<close>

definition no_super_signature :: "string \<Rightarrow> error + TensorSignature nested" where
  "no_super_signature function = Inl NotImplementedError"


definition example_value :: StateValue where
  "example_value = \<lparr>
     states_spec = Some (SignatureDict [(''state'', Single (TensorSpec ''float'' [4]))]),
     auxiliaries_spec = Some (SignatureDict [(''mask'', Single (TensorSpec ''bool'' [3]))]),
     actions_spec = None,
     internals_spec = Some (Some (SignatureDict [])) \<rparr>"

section \<open>Properties of the agent constructor\<close>

subsection \<open>Auxiliary facts\<close>


lemma bind_args_fields:
  assumes "bind_args kw = Inr a"
  shows "update_frequency a = arg_or kw ''update_frequency'' (PStr ''batch_size'')"
    and "learning_rate a = arg_or kw ''learning_rate'' (PFloat (1 / 1000))"
    and "discount a = arg_or kw ''discount'' (PFloat (99 / 100))"
  using assms by (auto simp: bind_args_def split: list.splits)

lemma bind_minimal_call: "bind_args minimal_call = Inr minimal_args"
  by (simp add: bind_args_def minimal_call_def minimal_args_def required_params_def
      optional_params_def arg_or_def)

lemma bind_deprecated_call: "bind_args deprecated_call = Inr deprecated_args"
  by (simp add: bind_args_def deprecated_call_def minimal_call_def deprecated_args_def
      minimal_args_def required_params_def optional_params_def arg_or_def)

lemma update_frequency_default:
  "bind_args kw = Inr a \<Longrightarrow> map_of kw ''update_frequency'' = None
     \<Longrightarrow> update_frequency a = PStr ''batch_size''"
  by (simp add: bind_args_fields(1) arg_or_def)

subsection \<open>The guard and the deprecation checks\<close>

text \<open>
  C1: the body of \<^verbatim>\<open>DeterministicPolicyGradient.__init__\<close> fails for every combination of
  arguments, every object and every superclass constructor with the \<^verbatim>\<open>TensorforceError\<close>
  whose message is 'Temporarily broken.', and it leaves the object as it was: nothing else
  has happened before the error.
\<close>

theorem init_temporarily_broken:
  "init super_init a self = (Inl (TensorforceError ''Temporarily broken.''), self)"
  by (simp add: init_def broken_guard_def)

text \<open>
  C2, as stated, does not hold: a call that supplies the deprecated argument
  \<^verbatim>\<open>estimate_terminal=True\<close> does not fail with the deprecation error that names
  \<open>estimate_terminal\<close> and \<open>predict_terminal_values\<close>.
\<close>

theorem deprecated_error_counterexample:
  "map_of deprecated_call ''estimate_terminal'' = Some (PBool True) \<and>
   DeterministicPolicyGradient super_ok deprecated_call fresh_agent
     \<noteq> (Inl (Deprecated ''DPG'' ''estimate_terminal'' ''predict_terminal_values''), fresh_agent)"
  by (simp add: DeterministicPolicyGradient_def bind_args_def deprecated_call_def minimal_call_def
      required_params_def init_def broken_guard_def)

text \<open>
  C2, amended: when a deprecated argument is supplied (\<open>estimate_terminal\<close> or
  \<open>critic_network\<close> is not \<^verbatim>\<open>None\<close>), construction always fails before any other effect,
  with the 'Temporarily broken.' error of the guard at line 155. The statements after the
  guard (lines 156 to 219), taken on their own, fail with the deprecation error naming the
  deprecated argument and its replacement (\<open>estimate_terminal\<close> and
  \<open>predict_terminal_values\<close> first, else \<open>critic_network\<close> and \<open>critic\<close>), with the
  object unchanged and the superclass constructor not called.
\<close>

theorem deprecated_argument_fails:
  assumes "estimate_terminal a \<noteq> PNone \<or> critic_network a \<noteq> PNone"
  shows "init super_init a self = (Inl (TensorforceError ''Temporarily broken.''), self) \<and>
         init_after_guard super_init a self =
           (Inl (if estimate_terminal a \<noteq> PNone
                 then Deprecated ''DPG'' ''estimate_terminal'' ''predict_terminal_values''
                 else Deprecated ''DPG'' ''critic_network'' ''critic''), self)"
  using assms by (auto simp: init_def broken_guard_def init_after_guard_def check_deprecated_def)

theorem deprecated_argument_fails_witness:
  "estimate_terminal deprecated_args = PBool True \<and>
   init super_ok deprecated_args fresh_agent
     = (Inl (TensorforceError ''Temporarily broken.''), fresh_agent) \<and>
   init_after_guard super_ok deprecated_args fresh_agent
     = (Inl (Deprecated ''DPG'' ''estimate_terminal'' ''predict_terminal_values''), fresh_agent)"
proof -
  have h: "estimate_terminal deprecated_args \<noteq> PNone \<or> critic_network deprecated_args \<noteq> PNone"
    by (simp add: deprecated_args_def minimal_args_def)
  show ?thesis
    using h deprecated_argument_fails [OF h, of super_ok fresh_agent]
    by (simp add: deprecated_args_def minimal_args_def)
qed

text \<open>
  C3: the deprecation checks are unreachable. For every combination of arguments, also with
  \<open>estimate_terminal\<close> or \<open>critic_network\<close> given, the body raises the 'Temporarily broken.'
  error; its error is never a deprecation error; the object is unchanged; and the outcome
  does not depend on the arguments or on the superclass constructor, so no statement after
  line 155 has run.
\<close>

theorem deprecation_checks_unreachable:
  "fst (init super_init a self) = Inl (TensorforceError ''Temporarily broken.'') \<and>
   fst (init super_init a self) \<noteq> Inl (Deprecated n arg rep) \<and>
   snd (init super_init a self) = self \<and>
   init super_init a self = init super_init' a' self"
  by (simp add: init_def broken_guard_def)

subsection \<open>The mapping from arguments to specifications\<close>



text \<open>
  C5: for every combination of arguments the type of the optimizer specification is 'adam'
  and the objective is 'deterministic\_policy\_gradient'.
\<close>

theorem optimizer_objective_fixed:
  "map_of (optimizer (spec_mapping a)) ''type'' = Some (PStr ''adam'') \<and>
   objective (spec_mapping a) = PStr ''deterministic_policy_gradient''"
  by (simp add: spec_mapping_def)

text \<open>
  C6: the reward estimation specification holds the arguments \<open>horizon\<close>, \<open>discount\<close> and
  \<open>predict_terminal_values\<close> unchanged, and the fixed entries
  \<^verbatim>\<open>predict_horizon_values='late'\<close>, \<^verbatim>\<open>estimate_advantage=False\<close> and
  \<^verbatim>\<open>predict_action_values=True\<close>; it has these six entries and no other.
\<close>

theorem reward_estimation_copied:
  "map_of (reward_estimation (spec_mapping a)) ''horizon'' = Some (horizon a) \<and>
   map_of (reward_estimation (spec_mapping a)) ''discount'' = Some (discount a) \<and>
   map_of (reward_estimation (spec_mapping a)) ''predict_terminal_values''
     = Some (predict_terminal_values a) \<and>
   map_of (reward_estimation (spec_mapping a)) ''predict_horizon_values'' = Some (PStr ''late'') \<and>
   map_of (reward_estimation (spec_mapping a)) ''estimate_advantage'' = Some (PBool False) \<and>
   map_of (reward_estimation (spec_mapping a)) ''predict_action_values'' = Some (PBool True) \<and>
   map fst (reward_estimation (spec_mapping a)) =
     [''horizon'', ''discount'', ''predict_horizon_values'', ''estimate_advantage'',
      ''predict_action_values'', ''predict_terminal_values'']"
  by (simp add: spec_mapping_def)

text \<open>
  C7: in a call that omits \<open>learning_rate\<close> the parameter is 1e-3 and that value is the
  learning rate of the optimizer specification; in a call that omits \<open>discount\<close> the
  parameter is 0.99 and that value is the discount of the reward estimation specification.
\<close>

theorem documented_defaults:
  assumes "bind_args kw = Inr a"
  shows "(map_of kw ''learning_rate'' = None \<longrightarrow>
            learning_rate a = PFloat (1 / 1000) \<and>
            map_of (optimizer (spec_mapping a)) ''learning_rate'' = Some (PFloat (1 / 1000))) \<and>
         (map_of kw ''discount'' = None \<longrightarrow>
            discount a = PFloat (99 / 100) \<and>
            map_of (reward_estimation (spec_mapping a)) ''discount'' = Some (PFloat (99 / 100)))"
  using bind_args_fields(2,3) [OF assms] by (simp add: spec_mapping_def arg_or_def)

theorem documented_defaults_witness:
  "bind_args minimal_call = Inr minimal_args \<and>
   map_of minimal_call ''learning_rate'' = None \<and>
   map_of minimal_call ''discount'' = None \<and>
   learning_rate minimal_args = PFloat (1 / 1000) \<and>
   map_of (optimizer (spec_mapping minimal_args)) ''learning_rate'' = Some (PFloat (1 / 1000)) \<and>
   discount minimal_args = PFloat (99 / 100) \<and>
   map_of (reward_estimation (spec_mapping minimal_args)) ''discount'' = Some (PFloat (99 / 100))"
proof -
  have b: "bind_args minimal_call = Inr minimal_args"
    by (rule bind_minimal_call)
  have l: "map_of minimal_call ''learning_rate'' = None"
    and d: "map_of minimal_call ''discount'' = None"
    by (simp_all add: minimal_call_def)
  show ?thesis
    using b l d documented_defaults [OF b] by simp
qed



section \<open>Properties of the StateValue signatures\<close>

lemma signatures_batched: "\<forall>g \<in> set_nested (signatures t True). batched g"
  by (simp add: signatures_def nested.set_map signature_def)

text \<open>
  C8: for an object whose \<open>states_spec\<close>, \<open>internals_spec\<close> and \<open>auxiliaries_spec\<close> are
  set, the input signature of \<open>state_value\<close> has the four entries states, horizons,
  internals and auxiliaries, in this order: the batched signatures of the three
  specifications and a batched int tensor of shape (2) for the horizons; every tensor in it
  is batched. The output signature is one batched float tensor of shape ().
\<close>

theorem state_value_signatures:
  assumes "states_spec self = Some st"
    and "internals_spec self = Some (Some it)"
    and "auxiliaries_spec self = Some aux"
  shows "input_signature super_signature self ''state_value'' =
           Inr (SignatureDict
             [(''states'', signatures st True),
              (''horizons'', Single (TensorSignature ''int'' [2] True)),
              (''internals'', signatures it True),
              (''auxiliaries'', signatures aux True)]) \<and>
         (\<forall>g \<in> set_nested (signatures st True) \<union> set_nested (signatures it True)
               \<union> set_nested (signatures aux True). batched g) \<and>
         output_signature super_signature self ''state_value'' =
           Inr (SignatureDict [(''singleton'', Single (TensorSignature ''float'' [] True))])"
  using assms signatures_batched
  by (auto simp: input_signature_def output_signature_def signature_of_def signature_def)

theorem state_value_signatures_witness:
  "states_spec example_value = Some (SignatureDict [(''state'', Single (TensorSpec ''float'' [4]))]) \<and>
   internals_spec example_value = Some (Some (SignatureDict [])) \<and>
   auxiliaries_spec example_value = Some (SignatureDict [(''mask'', Single (TensorSpec ''bool'' [3]))]) \<and>
   input_signature no_super_signature example_value ''state_value'' =
     Inr (SignatureDict
       [(''states'', SignatureDict [(''state'', Single (TensorSignature ''float'' [4] True))]),
        (''horizons'', Single (TensorSignature ''int'' [2] True)),
        (''internals'', SignatureDict []),
        (''auxiliaries'', SignatureDict [(''mask'', Single (TensorSignature ''bool'' [3] True))])]) \<and>
   output_signature no_super_signature example_value ''state_value'' =
     Inr (SignatureDict [(''singleton'', Single (TensorSignature ''float'' [] True))])"
proof -
  have s: "states_spec example_value = Some (SignatureDict [(''state'', Single (TensorSpec ''float'' [4]))])"
    and i: "internals_spec example_value = Some (Some (SignatureDict []))"
    and a: "auxiliaries_spec example_value = Some (SignatureDict [(''mask'', Single (TensorSpec ''bool'' [3]))])"
    by (simp_all add: example_value_def)
  show ?thesis
    using s i a state_value_signatures [OF s i a, of no_super_signature]
    by (simp add: signatures_def signature_def)
qed

text \<open>
  C9: the input signature of \<open>past_horizon\<close> is empty, and its output signature is one int
  tensor of shape () that is not batched, for every object.
\<close>

theorem past_horizon_signatures:
  "input_signature super_signature self ''past_horizon'' = Inr (SignatureDict []) \<and>
   output_signature super_signature self ''past_horizon'' =
     Inr (SignatureDict [(''singleton'', Single (TensorSignature ''int'' [] False))])"
  by (simp add: input_signature_def output_signature_def signature_def)

end
